theory Spec2Isabelle
  imports Main "HOL-Library.Word"
begin

section \<open>Data model\<close>

text \<open>
  Modelled from the spec: the type \<open>unversioned.Image\<close> is declared in the eraser API
  package, which is not among the sources. The spec describes an image as an identifier
  plus an ordered list of content digests (strings, typically prefixed \<open>sha256:\<close>).
\<close>

record Image =
  ImageID :: string
  Digests :: "string list"

text \<open>
  Go's \<open>error\<close> values. \<open>SkipDir\<close> and \<open>SkipAll\<close> are the sentinels of \<open>io/fs\<close>;
  \<open>PathError\<close> is what the operating system reports for a path; \<open>Errorf\<close> is an
  error built by \<open>fmt.Errorf\<close> or by a decoder; \<open>NilDereference\<close> stands for the
  run-time panic of a method call on a nil \<open>fs.DirEntry\<close>; the last three are the
  errors of \<open>time.ParseDuration\<close>, with the string it was given (and the unit it did
  not know).
\<close>

type_synonym errno = string

datatype error =
    SkipDir
  | SkipAll
  | PathError errno
  | Errorf string
  | NilDereference
  | InvalidDuration string
  | MissingUnit string
  | UnknownUnit string string

text \<open>
  \<open>time.Time\<close> as nanoseconds on the wall clock, \<open>time.Duration\<close> as the signed 64-bit
  nanosecond count that it is.
\<close>

type_synonym Time = int
type_synonym Duration = "64 word"

definition minDuration :: Duration where
  "minDuration = - (2 ^ 63)"

definition maxDuration :: Duration where
  "maxDuration = 2 ^ 63 - 1"

definition Hour :: Duration where
  "Hour = 3600000000000"

text \<open>
  \<open>Time.Sub\<close>: the difference wraps in 64 bits, is kept when adding it back gives the
  first time again, and saturates otherwise.
\<close>

definition Sub :: "Time \<Rightarrow> Time \<Rightarrow> Duration" where
  "Sub t u =
     (let d = (word_of_int (t - u) :: Duration)
      in if u + sint d = t then d
         else if t < u then minDuration
         else maxDuration)"

text \<open>\<open>time.Since(t)\<close> is \<open>time.Now().Sub(t)\<close>; the clock reading is the parameter \<open>now\<close>.\<close>

definition Since :: "Time \<Rightarrow> Time \<Rightarrow> Duration" where
  "Since now t = Sub now t"

section \<open>The content store and its traversal\<close>

text \<open>
  The directory tree under the content store. A non-directory entry carries its base
  name and the result of \<open>d.Info()\<close> followed by \<open>ctime.Created\<close>: an error, or the
  creation time. A directory carries its base name, the entries \<open>ReadDir\<close> returns
  for it (in the order it returns them) and the error \<open>ReadDir\<close> returns, if any.
\<close>

datatype node =
    File string "errno + Time"
  | Dir string "node list" "errno option"

fun Name :: "node \<Rightarrow> string" where
  "Name (File n i) = n"
| "Name (Dir n ds e) = n"

text \<open>\<open>path.Join\<close> of a directory path and a base name (which holds no separator).\<close>

definition joinPath :: "string \<Rightarrow> string \<Rightarrow> string" where
  "joinPath name n = (if name = ''.'' then n else name @ ''/'' @ n)"

text \<open>
  \<open>fs.WalkDirFunc\<close>: the path, the entry (nil when the root cannot be read), the error
  of the traversal, and the variables the closure updates.
\<close>

type_synonym 's WalkDirFunc = "string \<Rightarrow> node option \<Rightarrow> error option \<Rightarrow> 's \<Rightarrow> error option \<times> 's"

text \<open>
  \<open>fs.walkDir\<close>: call the function on the entry; for a directory, read it, report a read
  error by a second call, then walk the entries in order. \<open>SkipDir\<close> ends the directory
  being walked without an error; any other error ends the walk.
\<close>

fun walkDir :: "'s WalkDirFunc \<Rightarrow> string \<Rightarrow> node \<Rightarrow> 's \<Rightarrow> error option \<times> 's"
  and walkEntries :: "'s WalkDirFunc \<Rightarrow> string \<Rightarrow> node list \<Rightarrow> 's \<Rightarrow> error option \<times> 's"
where
  "walkDir fn name (File n i) s = fn name (Some (File n i)) None s"
| "walkDir fn name (Dir n ds rerr) s =
     (case fn name (Some (Dir n ds rerr)) None s of
        (Some err, s1) \<Rightarrow> (if err = SkipDir then (None, s1) else (Some err, s1))
      | (None, s1) \<Rightarrow>
          (case rerr of
             None \<Rightarrow> walkEntries fn name ds s1
           | Some e \<Rightarrow>
               (case fn name (Some (Dir n ds rerr)) (Some (PathError e)) s1 of
                  (Some err, s2) \<Rightarrow> (if err = SkipDir then (None, s2) else (Some err, s2))
                | (None, s2) \<Rightarrow> walkEntries fn name ds s2)))"
| "walkEntries fn name [] s = (None, s)"
| "walkEntries fn name (d1 # ds) s =
     (case walkDir fn (joinPath name (Name d1)) d1 s of
        (Some err, s1) \<Rightarrow> (if err = SkipDir then (None, s1) else (Some err, s1))
      | (None, s1) \<Rightarrow> walkEntries fn name ds s1)"

text \<open>
  \<open>fs.WalkDir\<close> on the root \<open>"."\<close>: \<open>root\<close> is the result of \<open>Stat\<close> on it. A failed
  \<open>Stat\<close> is reported to the function with a nil entry.
\<close>

definition WalkDir :: "errno + node \<Rightarrow> 's WalkDirFunc \<Rightarrow> 's \<Rightarrow> error option \<times> 's" where
  "WalkDir root fn s =
     (case (case root of
              Inl e \<Rightarrow> fn ''.'' None (Some (PathError e)) s
            | Inr d \<Rightarrow> walkDir fn ''.'' d s) of
        (Some err, s') \<Rightarrow> (if err = SkipDir \<or> err = SkipAll then (None, s') else (Some err, s'))
      | (None, s') \<Rightarrow> (None, s'))"

section \<open>The scanner\<close>

text \<open>\<open>strings.HasPrefix\<close> and \<open>strings.TrimPrefix\<close>.\<close>

definition HasPrefix :: "string \<Rightarrow> string \<Rightarrow> bool" where
  "HasPrefix s prefix = (length prefix \<le> length s \<and> take (length prefix) s = prefix)"

definition TrimPrefix :: "string \<Rightarrow> string \<Rightarrow> string" where
  "TrimPrefix s prefix = (if HasPrefix s prefix then drop (length prefix) s else s)"

text \<open>
  The map \<open>digests\<close> of \<open>scan\<close>: for every image in input order and every digest of it in
  order, the bare digest is set to the image.
\<close>

definition buildDigests :: "Image list \<Rightarrow> (string \<rightharpoonup> Image)" where
  "buildDigests allImages =
     fold (\<lambda>img m. fold (\<lambda>dgst m'. m'(TrimPrefix dgst ''sha256:'' \<mapsto> img)) (Digests img) m)
       allImages Map.empty"

text \<open>The lines the logger receives.\<close>

datatype log_value = VImage Image | VImages "Image list" | VTime Time | VDuration Duration

datatype log_entry =
    LogError error string
  | LogInfo string "(string \<times> log_value) list"

text \<open>
  The variables of \<open>scan\<close> that the walk function updates, with the log lines written so
  far. \<open>scan\<close> returns a record of this type: the fields \<open>nonCompliant\<close> and
  \<open>failedImages\<close> are the two lists it returns.
\<close>

record scan_state =
  nonCompliant :: "Image list"
  failedImages :: "Image list"
  logged :: "log_entry list"

text \<open>The function literal handed to \<open>fs.WalkDir\<close> in the first variant of \<open>scan\<close>.\<close>

fun scanWalkFn :: "(string \<rightharpoonup> Image) \<Rightarrow> Duration \<Rightarrow> Time \<Rightarrow> scan_state WalkDirFunc" where
  "scanWalkFn digests maxAge now path d (Some err) st = (Some err, st)"
| "scanWalkFn digests maxAge now path None None st = (Some NilDereference, st)"
| "scanWalkFn digests maxAge now path (Some (Dir n ds e)) None st = (None, st)"
| "scanWalkFn digests maxAge now path (Some (File n info)) None st =
     (case digests n of
        None \<Rightarrow> (None, st)
      | Some img \<Rightarrow>
          (case info of
             Inl e \<Rightarrow> (None, st\<lparr>failedImages := failedImages st @ [img]\<rparr>)
           | Inr created \<Rightarrow>
               (None, if maxAge <s Since now created
                      then st\<lparr>nonCompliant := nonCompliant st @ [img]\<rparr>
                      else st)))"

text \<open>
  \<open>scan\<close>, first variant. \<open>maxAge\<close> is the package-level variable and \<open>root\<close> the
  content store as the walk finds it. \<open>now\<close> is the clock: one reading stands for
  every call of \<open>time.Since\<close> during the scan.
\<close>

definition scan :: "Duration \<Rightarrow> Time \<Rightarrow> errno + node \<Rightarrow> Image list \<Rightarrow> scan_state" where
  "scan maxAge now root allImages =
     (let digests = buildDigests allImages
      in case WalkDir root (scanWalkFn digests maxAge now)
                \<lparr>nonCompliant = [], failedImages = [], logged = []\<rparr> of
           (Some err, st) \<Rightarrow>
             \<lparr>nonCompliant = [], failedImages = allImages,
              logged = logged st @ [LogError (Errorf ''directory scan failed'')
                                      ''all images considered failed'']\<rparr>
         | (None, st) \<Rightarrow> st)"

text \<open>The function literal of the second variant: it logs every file it inspects.\<close>

fun scanWalkFn2 :: "(string \<rightharpoonup> Image) \<Rightarrow> Duration \<Rightarrow> Time \<Rightarrow> scan_state WalkDirFunc" where
  "scanWalkFn2 digests maxAge now path d (Some err) st = (Some err, st)"
| "scanWalkFn2 digests maxAge now path None None st = (Some NilDereference, st)"
| "scanWalkFn2 digests maxAge now path (Some (Dir n ds e)) None st = (None, st)"
| "scanWalkFn2 digests maxAge now path (Some (File n info)) None st =
     (case digests n of
        None \<Rightarrow> (None, st)
      | Some img \<Rightarrow>
          (case info of
             Inl e \<Rightarrow> (None, st\<lparr>failedImages := failedImages st @ [img]\<rparr>)
           | Inr created \<Rightarrow>
               (let st1 = st\<lparr>logged := logged st @
                            [LogInfo ''image scanned''
                               [(''image'', VImage img), (''created_at'', VTime created),
                                (''image age'', VDuration (Since now created))]]\<rparr>
                in (None, if maxAge <s Since now created
                          then st1\<lparr>nonCompliant := nonCompliant st1 @ [img]\<rparr>
                          else st1))))"

text \<open>\<open>scan\<close>, second variant.\<close>

definition scan2 :: "Duration \<Rightarrow> Time \<Rightarrow> errno + node \<Rightarrow> Image list \<Rightarrow> scan_state" where
  "scan2 maxAge now root allImages =
     (let digests = buildDigests allImages
      in case WalkDir root (scanWalkFn2 digests maxAge now)
                \<lparr>nonCompliant = [], failedImages = [], logged = []\<rparr> of
           (Some err, st) \<Rightarrow>
             \<lparr>nonCompliant = [], failedImages = allImages,
              logged = logged st @ [LogError err ''all images considered failed'']\<rparr>
         | (None, st) \<Rightarrow>
             st\<lparr>logged := logged st @
                  [LogInfo ''images'' [(''nonCompliant'', VImages (nonCompliant st)),
                                       (''failed'', VImages (failedImages st))]]\<rparr>)"

section \<open>Configuration\<close>

record Config =
  MaxAge :: string

text \<open>
  The initial value of the package-level variable \<open>maxAge\<close>: \<open>7 * 24 * time.Hour\<close>.
\<close>

definition defaultMaxAge :: Duration where
  "defaultMaxAge = 7 * 24 * Hour"

subsection \<open>The duration parser of the standard library\<close>

text \<open>
  \<open>time.ParseDuration\<close> is library code; \<open>main\<close> depends on the value it returns
  beside an error. It reads \<open>[-+]?([0-9]*(\.[0-9]*)?[a-z]+)+\<close> with unsigned 64-bit
  arithmetic. \<open>leadingInt\<close> consumes the leading digits and fails on overflow (\<open>None\<close>).
\<close>

definition isDigit :: "char \<Rightarrow> bool" where
  "isDigit c = (48 \<le> (of_char c :: nat) \<and> (of_char c :: nat) \<le> 57)"

fun leadingInt :: "64 word \<Rightarrow> string \<Rightarrow> (64 word \<times> string) option" where
  "leadingInt x [] = Some (x, [])"
| "leadingInt x (c # s) =
     (if \<not> isDigit c then Some (x, c # s)
      else if x > 2 ^ 63 div 10 then None
      else (let x' = x * 10 + of_char c - 48
            in if x' > 2 ^ 63 then None else leadingInt x' s))"

text \<open>
  \<open>leadingFraction\<close> consumes the digits after the point; on overflow it stops
  accumulating. \<open>scale\<close> is the power of ten that the digits kept are divided by.
\<close>

fun leadingFraction :: "64 word \<Rightarrow> nat \<Rightarrow> bool \<Rightarrow> string \<Rightarrow> 64 word \<times> nat \<times> string" where
  "leadingFraction x scale overflow [] = (x, scale, [])"
| "leadingFraction x scale overflow (c # s) =
     (if \<not> isDigit c then (x, scale, c # s)
      else if overflow then leadingFraction x scale overflow s
      else if x > (2 ^ 63 - 1) div 10 then leadingFraction x scale True s
      else (let y = x * 10 + of_char c - 48
            in if y > 2 ^ 63 then leadingFraction x scale True s
               else leadingFraction y (scale * 10) overflow s))"

text \<open>The units, in nanoseconds; the two spellings of the micro sign are in UTF-8.\<close>

definition unitMap :: "string \<rightharpoonup> 64 word" where
  "unitMap =
     [''ns'' \<mapsto> 1,
      ''us'' \<mapsto> 1000,
      [CHR 0xC2, CHR 0xB5, CHR ''s''] \<mapsto> 1000,
      [CHR 0xCE, CHR 0xBC, CHR ''s''] \<mapsto> 1000,
      ''ms'' \<mapsto> 1000000,
      ''s'' \<mapsto> 1000000000,
      ''m'' \<mapsto> 60000000000,
      ''h'' \<mapsto> 3600000000000]"

text \<open>
  One round of the loop of \<open>ParseDuration\<close>, on a string that is not empty: a number, a
  unit, and the rest of the string. The nanoseconds of a fraction that is not zero are
  computed in floating point by the library,
  \<open>uint64(float64(f) * (float64(unit) / scale))\<close>; that product is the parameter
  \<open>fracNanos\<close>.
\<close>

definition parseTerm :: "(64 word \<Rightarrow> 64 word \<Rightarrow> nat \<Rightarrow> 64 word) \<Rightarrow> string \<Rightarrow> string \<Rightarrow> error + (64 word \<times> string)" where
  "parseTerm fracNanos orig s =
     (if \<not> (hd s = CHR ''.'' \<or> isDigit (hd s)) then Inl (InvalidDuration orig)
      else case leadingInt 0 s of
        None \<Rightarrow> Inl (InvalidDuration orig)
      | Some (v, s1) \<Rightarrow>
          (let pre = (length s \<noteq> length s1);
               (f, scale, s2) = (if s1 \<noteq> [] \<and> hd s1 = CHR ''.''
                                 then leadingFraction 0 1 False (tl s1) else (0, 1, s1));
               post = (s1 \<noteq> [] \<and> hd s1 = CHR ''.'' \<and> length (tl s1) \<noteq> length s2)
           in if \<not> pre \<and> \<not> post then Inl (InvalidDuration orig)
              else (let u = takeWhile (\<lambda>c. \<not> (c = CHR ''.'' \<or> isDigit c)) s2;
                        s3 = dropWhile (\<lambda>c. \<not> (c = CHR ''.'' \<or> isDigit c)) s2
                    in if u = [] then Inl (MissingUnit orig)
                       else case unitMap u of
                         None \<Rightarrow> Inl (UnknownUnit u orig)
                       | Some unit \<Rightarrow>
                           (if v > 2 ^ 63 div unit then Inl (InvalidDuration orig)
                            else (let v1 = v * unit
                                  in if f > 0
                                     then (let v2 = v1 + fracNanos f unit scale
                                           in if v2 > 2 ^ 63 then Inl (InvalidDuration orig)
                                              else Inr (v2, s3))
                                     else Inr (v1, s3))))))"

text \<open>The loop of \<open>ParseDuration\<close>: the terms are added up in \<open>d\<close> until the string ends.\<close>

function parseTerms :: "(64 word \<Rightarrow> 64 word \<Rightarrow> nat \<Rightarrow> 64 word) \<Rightarrow> string \<Rightarrow> 64 word \<Rightarrow> string \<Rightarrow> error + 64 word" where
  "parseTerms fracNanos orig d s =
     (if s = [] then Inr d
      else case parseTerm fracNanos orig s of
        Inl err \<Rightarrow> Inl err
      | Inr (v, rest) \<Rightarrow>
          (let d' = d + v
           in if d' > 2 ^ 63 then Inl (InvalidDuration orig)
              else parseTerms fracNanos orig d' rest))"
  by pat_completeness auto
termination
proof -
  have leadingInt_length: "length r \<le> length s"
    if "leadingInt x s = Some (v, r)" for x s v r
    using that
    by (induction x s rule: leadingInt.induct) (auto simp: Let_def split: if_splits)
  have leadingFraction_length: "length r \<le> length s"
    if "leadingFraction x sc ov s = (f, sc', r)" for x sc ov s f sc' r
    using that
    by (induction x sc ov s rule: leadingFraction.induct) (auto simp: Let_def split: if_splits)
  have dropWhile_shorter: "length (dropWhile P xs) < length xs"
    if "takeWhile P xs \<noteq> []" for P and xs :: string
    using that
    by (induction xs) (auto split: if_splits simp: le_imp_less_Suc length_dropWhile_le)
  have parseTerm_shorter: "length r < length s"
    if pt: "parseTerm fr orig s = Inr (v, r)" for fr orig s v r
  proof -
    from pt obtain v0 s1 where li: "leadingInt 0 s = Some (v0, s1)"
      by (auto simp: parseTerm_def split: if_splits option.splits)
    define fs where "fs =
      (if s1 \<noteq> [] \<and> hd s1 = CHR ''.'' then leadingFraction 0 1 False (tl s1) else (0, 1, s1))"
    obtain f scale s2 where fs: "fs = (f, scale, s2)" by (cases fs) auto
    have "length s2 \<le> length s1"
      using fs leadingFraction_length [of 0 1 False "tl s1" f scale s2]
      by (auto simp: fs_def split: if_splits)
    moreover have "length s1 \<le> length s" using li by (rule leadingInt_length)
    moreover from pt li fs have "takeWhile (\<lambda>c. \<not> (c = CHR ''.'' \<or> isDigit c)) s2 \<noteq> []"
        and "r = dropWhile (\<lambda>c. \<not> (c = CHR ''.'' \<or> isDigit c)) s2"
      by (auto simp: parseTerm_def Let_def fs_def [symmetric] split: if_splits option.splits)
    ultimately show ?thesis
      using dropWhile_shorter [of "\<lambda>c. \<not> (c = CHR ''.'' \<or> isDigit c)" s2] by simp
  qed
  show ?thesis
    by (relation "measure (\<lambda>(fr, orig, d, s). length s)") (auto dest: parseTerm_shorter)
qed

text \<open>
  \<open>time.ParseDuration\<close>: the duration and the error, as Go returns them side by side.
  Every error comes with the duration 0.
\<close>

definition ParseDuration :: "(64 word \<Rightarrow> 64 word \<Rightarrow> nat \<Rightarrow> 64 word) \<Rightarrow> string \<Rightarrow> Duration \<times> error option" where
  "ParseDuration fracNanos s =
     (let signed = (s \<noteq> [] \<and> (hd s = CHR ''-'' \<or> hd s = CHR ''+''));
          neg = (signed \<and> hd s = CHR ''-'');
          s1 = (if signed then tl s else s)
      in if s1 = ''0'' then (0, None)
         else if s1 = [] then (0, Some (InvalidDuration s))
         else case parseTerms fracNanos s 0 s1 of
           Inl err \<Rightarrow> (0, Some err)
         | Inr d \<Rightarrow>
             if neg then (- d, None)
             else if d > 2 ^ 63 - 1 then (0, Some (InvalidDuration s))
             else (d, None))"

subsection \<open>Loading the configuration\<close>

text \<open>
  What \<open>loadConfig\<close> takes from outside the program: \<open>os.ReadFile\<close>; the decoding of
  the file into an \<open>EraserConfig\<close>, of which only the pointer
  \<open>Components.Scanner.Config\<close> is used (\<open>None\<close> is nil; the error of this decoding is
  only logged); and the decoding of the scanner's own block into the \<open>Config\<close> that
  holds the default, which returns the \<open>Config\<close> afterwards and the error.
\<close>

record environment =
  ReadFile :: "string \<Rightarrow> error + string"
  UnmarshalEraser :: "string \<Rightarrow> string option"
  UnmarshalConfig :: "string \<Rightarrow> Config \<Rightarrow> Config \<times> error option"

text \<open>\<open>loadConfig\<close>, first variant.\<close>

definition loadConfig :: "environment \<Rightarrow> string \<Rightarrow> Config \<times> error option" where
  "loadConfig env filename =
     (let cfg = \<lparr>MaxAge = ''7d''\<rparr>
      in case ReadFile env filename of
           Inl err \<Rightarrow> (cfg, Some err)
         | Inr b \<Rightarrow>
             (let scanCfgYaml = UnmarshalEraser env b;
                  scanCfgBytes = (case scanCfgYaml of None \<Rightarrow> [] | Some y \<Rightarrow> y)
              in case UnmarshalConfig env scanCfgBytes cfg of
                   (cfg', Some err) \<Rightarrow> (cfg', Some err)
                 | (cfg', None) \<Rightarrow> (cfg', None)))"

text \<open>
  The start of \<open>main\<close>, first variant, up to the value of \<open>maxAge\<close> that \<open>scan\<close> will
  read. \<open>config\<close> is the value of the command-line flag. The errors of \<open>loadConfig\<close>
  and of \<open>ParseDuration\<close> are logged and \<open>main\<close> goes on; the assignment
  \<open>maxAge, err = time.ParseDuration(c.MaxAge)\<close> stores the duration in either case.
\<close>

definition mainMaxAge :: "(64 word \<Rightarrow> 64 word \<Rightarrow> nat \<Rightarrow> 64 word) \<Rightarrow> environment \<Rightarrow> string \<Rightarrow> Duration" where
  "mainMaxAge fracNanos env config =
     (let config' = (if config = [] then ''/config/controller_manager_config.yaml'' else config);
          (c, err) = loadConfig env config'
      in if MaxAge c \<noteq> [] then fst (ParseDuration fracNanos (MaxAge c)) else defaultMaxAge)"

text \<open>How a run of the second variant can end before it returns a value.\<close>

datatype 'a outcome = Returned 'a | Exited nat | Panicked

text \<open>
  \<open>loadConfig\<close>, second variant: the default is \<open>168h\<close>, and the scanner's block is
  dereferenced for a log line before the test for nil.
\<close>

definition loadConfig2 :: "environment \<Rightarrow> string \<Rightarrow> (Config \<times> error option) outcome" where
  "loadConfig2 env filename =
     (let cfg = \<lparr>MaxAge = ''168h''\<rparr>
      in case ReadFile env filename of
           Inl err \<Rightarrow> Returned (cfg, Some err)
         | Inr b \<Rightarrow>
             (case UnmarshalEraser env b of
                None \<Rightarrow> Panicked
              | Some y \<Rightarrow>
                  (case UnmarshalConfig env y cfg of
                     (cfg', Some err) \<Rightarrow> Returned (cfg', Some err)
                   | (cfg', None) \<Rightarrow> Returned (cfg', None))))"

text \<open>
  The start of \<open>main\<close>, second variant, once the logger is set up: every error ends the
  process with status 1.
\<close>

definition mainMaxAge2 :: "(64 word \<Rightarrow> 64 word \<Rightarrow> nat \<Rightarrow> 64 word) \<Rightarrow> environment \<Rightarrow> string \<Rightarrow> Duration outcome" where
  "mainMaxAge2 fracNanos env config =
     (let config' = (if config = [] then ''/config/controller_manager_config.yaml'' else config)
      in case loadConfig2 env config' of
           Panicked \<Rightarrow> Panicked
         | Exited n \<Rightarrow> Exited n
         | Returned (c, Some err) \<Rightarrow> Exited 1
         | Returned (c, None) \<Rightarrow>
             (if MaxAge c \<noteq> []
              then (case ParseDuration fracNanos (MaxAge c) of
                      (d, Some err) \<Rightarrow> Exited 1
                    | (d, None) \<Rightarrow> Returned d)
              else Returned defaultMaxAge))"

section \<open>Notions the properties are stated with\<close>

text \<open>
  The non-directory entries of a tree, in the order the walk meets them, each with its
  base name and the result of reading its metadata.
\<close>

fun files :: "node \<Rightarrow> (string \<times> (errno + Time)) list" where
  "files (File n i) = [(n, i)]"
| "files (Dir n ds e) = concat (map files ds)"

text \<open>A tree all of whose directories can be read.\<close>

fun readable :: "node \<Rightarrow> bool" where
  "readable (File n i) = True"
| "readable (Dir n ds e) = (e = None \<and> list_all readable ds)"

definition rootFiles :: "errno + node \<Rightarrow> (string \<times> (errno + Time)) list" where
  "rootFiles root = (case root of Inl e \<Rightarrow> [] | Inr d \<Rightarrow> files d)"

definition rootReadable :: "errno + node \<Rightarrow> bool" where
  "rootReadable root = (case root of Inl e \<Rightarrow> False | Inr d \<Rightarrow> readable d)"

text \<open>The digests of an image as the index keys them.\<close>

definition bareDigests :: "Image \<Rightarrow> string list" where
  "bareDigests img = map (\<lambda>dgst. TrimPrefix dgst ''sha256:'') (Digests img)"

text \<open>
  The index as the spec words it: a bare digest belongs to the last image of the input
  that has it.
\<close>

definition lastOwner :: "Image list \<Rightarrow> string \<Rightarrow> Image option" where
  "lastOwner allImages key = find (\<lambda>img. key \<in> set (bareDigests img)) (rev allImages)"

text \<open>What the walk function does to the variables of \<open>scan\<close> at one file.\<close>

definition inspect :: "(string \<rightharpoonup> Image) \<Rightarrow> Duration \<Rightarrow> Time \<Rightarrow> string \<times> (errno + Time) \<Rightarrow> scan_state \<Rightarrow> scan_state" where
  "inspect digests maxAge now f st =
     snd (scanWalkFn digests maxAge now [] (Some (File (fst f) (snd f))) None st)"

text \<open>The verdict on one file, seen alone: what a walk over just this file reports.\<close>

definition nonCompliantOf :: "(string \<rightharpoonup> Image) \<Rightarrow> Duration \<Rightarrow> Time \<Rightarrow> string \<times> (errno + Time) \<Rightarrow> Image list" where
  "nonCompliantOf digests maxAge now f =
     nonCompliant (inspect digests maxAge now f \<lparr>nonCompliant = [], failedImages = [], logged = []\<rparr>)"

definition failedOf :: "(string \<rightharpoonup> Image) \<Rightarrow> Duration \<Rightarrow> Time \<Rightarrow> string \<times> (errno + Time) \<Rightarrow> Image list" where
  "failedOf digests maxAge now f =
     failedImages (inspect digests maxAge now f \<lparr>nonCompliant = [], failedImages = [], logged = []\<rparr>)"

text \<open>The input images that \<open>scan\<close> returns in neither list.\<close>

definition untouched :: "Image list \<Rightarrow> scan_state \<Rightarrow> Image list" where
  "untouched allImages st =
     filter (\<lambda>img. img \<notin> set (nonCompliant st) \<and> img \<notin> set (failedImages st)) allImages"

text \<open>
  A walk function \<open>f\<close> on states \<open>'s\<close> and a walk function \<open>g\<close> on states \<open>'t\<close> go in
  step for a relation \<open>R\<close> when, from related states, they return the same error and
  related states.
\<close>

definition simulates :: "('s \<Rightarrow> 't \<Rightarrow> bool) \<Rightarrow> 's WalkDirFunc \<Rightarrow> 't WalkDirFunc \<Rightarrow> bool" where
  "simulates R f g =
     (\<forall>p d e s t. R s t \<longrightarrow>
        fst (f p d e s) = fst (g p d e t) \<and> R (snd (f p d e s)) (snd (g p d e t)))"

definition sameLists :: "scan_state \<Rightarrow> scan_state \<Rightarrow> bool" where
  "sameLists s t = (nonCompliant s = nonCompliant t \<and> failedImages s = failedImages t)"

section \<open>Sample inputs\<close>

text \<open>The two images of the spec's example, and three more.\<close>

definition imgA :: Image where
  "imgA = \<lparr>ImageID = ''a'', Digests = [''sha256:d1'']\<rparr>"

definition imgB :: Image where
  "imgB = \<lparr>ImageID = ''b'', Digests = [''sha256:d2'']\<rparr>"

definition imgA2 :: Image where
  "imgA2 = \<lparr>ImageID = ''a2'', Digests = [''d1'']\<rparr>"

definition imgTwo :: Image where
  "imgTwo = \<lparr>ImageID = ''c'', Digests = [''sha256:d1'', ''sha256:d2'']\<rparr>"

definition imgNone :: Image where
  "imgNone = \<lparr>ImageID = ''e'', Digests = []\<rparr>"

text \<open>
  The clock reads ten days after time 0. In \<open>exStore\<close> the file \<open>d1\<close> was created ten
  days ago and \<open>d2\<close> one hour ago. \<open>exStoreBroken\<close> is the same store with a directory
  that cannot be read, met after both files. In \<open>exStoreGone\<close> the metadata of \<open>d1\<close>
  cannot be read and \<open>d2\<close> is ten days old. In \<open>exStoreEdge\<close> the file \<open>d2\<close> is
  exactly seven days old.
\<close>

definition exNow :: Time where
  "exNow = 864000000000000"

definition exStore :: node where
  "exStore =
     Dir ''.''
       [Dir ''blobs''
          [Dir ''sha256'' [File ''d1'' (Inr 0), File ''d2'' (Inr 860400000000000)] None] None,
        Dir ''ingest'' [] None] None"

definition exStoreBroken :: node where
  "exStoreBroken =
     Dir ''.''
       [Dir ''blobs''
          [Dir ''sha256'' [File ''d1'' (Inr 0), File ''d2'' (Inr 860400000000000)] None] None,
        Dir ''ingest'' [] (Some ''permission denied'')] None"

definition exStoreGone :: node where
  "exStoreGone =
     Dir ''.'' [File ''d1'' (Inl ''no such file or directory''), File ''d2'' (Inr 0)] None"

definition exStoreEdge :: node where
  "exStoreEdge = Dir ''.'' [File ''d1'' (Inr 0), File ''d2'' (Inr 259200000000000)] None"

text \<open>\<open>exStoreGone\<close> with a directory that cannot be read, met after both files.\<close>

definition exStoreGoneBroken :: node where
  "exStoreGoneBroken =
     Dir ''.''
       [File ''d1'' (Inl ''no such file or directory''), File ''d2'' (Inr 0),
        Dir ''ingest'' [] (Some ''permission denied'')] None"

text \<open>
  A configuration file that can be read and has a block for the scanner. With
  \<open>Some v\<close> the block sets \<open>maxAge\<close> to \<open>v\<close>; with \<open>None\<close> it has no such key and the
  decoder leaves the default in place.
\<close>

definition exEnv :: "string option \<Rightarrow> environment" where
  "exEnv v =
     \<lparr>ReadFile = (\<lambda>filename. Inr ''components: {scanner: {config: ...}}''),
      UnmarshalEraser = (\<lambda>b. Some ''maxAge: ...''),
      UnmarshalConfig =
        (\<lambda>y cfg. (case v of None \<Rightarrow> cfg | Some m \<Rightarrow> cfg\<lparr>MaxAge := m\<rparr>, None))\<rparr>"

section \<open>The walk of the scanner\<close>

lemmas ex_defs = defaultMaxAge_def imgA_def imgB_def imgA2_def imgTwo_def imgNone_def exNow_def
  exStore_def exStoreBroken_def exStoreGone_def exStoreEdge_def exStoreGoneBroken_def exEnv_def
  Hour_def

lemmas run_defs = scan_def WalkDir_def buildDigests_def TrimPrefix_def HasPrefix_def Since_def
  Sub_def joinPath_def rootFiles_def rootReadable_def bareDigests_def lastOwner_def untouched_def
  nonCompliantOf_def failedOf_def inspect_def

text \<open>
  With the walk function of \<open>scan\<close>, a walk over a tree whose directories can all be read
  inspects every file in order and returns no error; over any other tree it returns the
  error of a directory.
\<close>

lemma walk_scan:
  "(readable d \<longrightarrow>
      walkDir (scanWalkFn dg mA now) p d st = (None, fold (inspect dg mA now) (files d) st)) \<and>
   (\<not> readable d \<longrightarrow>
      (\<exists>e st'. walkDir (scanWalkFn dg mA now) p d st = (Some (PathError e), st')))"
  "(list_all readable ds \<longrightarrow>
      walkEntries (scanWalkFn dg mA now) p ds st =
        (None, fold (inspect dg mA now) (concat (map files ds)) st)) \<and>
   (\<not> list_all readable ds \<longrightarrow>
      (\<exists>e st'. walkEntries (scanWalkFn dg mA now) p ds st = (Some (PathError e), st')))"
proof (induction "scanWalkFn dg mA now" p d st and "scanWalkFn dg mA now" p ds st
    rule: walkDir_walkEntries.induct)
  case (1 name n i s)
  then show ?case by (auto simp: inspect_def split: option.splits sum.splits)
next
  case (2 name n ds rerr s)
  then show ?case by (cases rerr) auto
next
  case (3 name s)
  then show ?case by simp
next
  case (4 name d1 ds s)
  then show ?case
    apply (cases "walkDir (scanWalkFn dg mA now) (joinPath name (Name d1)) d1 s")
    apply (cases "readable d1")
     apply auto
    done
qed

lemma WalkDir_scan_ok:
  "rootReadable root \<Longrightarrow>
   WalkDir root (scanWalkFn dg mA now) st = (None, fold (inspect dg mA now) (rootFiles root) st)"
  by (cases root) (simp_all add: WalkDir_def rootReadable_def rootFiles_def walk_scan(1))

lemma WalkDir_scan_fail:
  assumes "\<not> rootReadable root"
  shows "\<exists>e st'. WalkDir root (scanWalkFn dg mA now) st = (Some (PathError e), st')"
proof (cases root)
  case (Inl e)
  then show ?thesis by (simp add: WalkDir_def)
next
  case (Inr d)
  with assms have "\<not> readable d" by (simp add: rootReadable_def)
  then obtain e st' where "walkDir (scanWalkFn dg mA now) ''.'' d st = (Some (PathError e), st')"
    using walk_scan(1) [of d dg mA now "''.''" st] by blast
  with Inr show ?thesis by (simp add: WalkDir_def)
qed

text \<open>
  So the walk of \<open>scan\<close> returns an error exactly when the root or a directory of the
  tree cannot be read: these are the calls in which the walk function is handed an error.
\<close>

lemma WalkDir_scan_error_iff:
  "fst (WalkDir root (scanWalkFn dg mA now) st) \<noteq> None \<longleftrightarrow> \<not> rootReadable root"
proof (cases "rootReadable root")
  case True
  then show ?thesis by (simp add: WalkDir_scan_ok)
next
  case False
  with WalkDir_scan_fail [OF False, of dg mA now st] show ?thesis by auto
qed

lemma scan_ok:
  "rootReadable root \<Longrightarrow>
   scan mA now root imgs =
     fold (inspect (buildDigests imgs) mA now) (rootFiles root)
       \<lparr>nonCompliant = [], failedImages = [], logged = []\<rparr>"
  by (simp add: scan_def WalkDir_scan_ok)

lemma scan_fail:
  assumes "\<not> rootReadable root"
  shows "nonCompliant (scan mA now root imgs) = []"
    and "failedImages (scan mA now root imgs) = imgs"
  using WalkDir_scan_fail [OF assms, of "buildDigests imgs" mA now
      "\<lparr>nonCompliant = [], failedImages = [], logged = []\<rparr>"]
  by (auto simp: scan_def)

lemma inspect_lists:
  "nonCompliant (inspect dg mA now f st) = nonCompliant st @ nonCompliantOf dg mA now f"
  "failedImages (inspect dg mA now f st) = failedImages st @ failedOf dg mA now f"
  by (auto simp: inspect_def nonCompliantOf_def failedOf_def split: option.splits sum.splits)

lemma fold_inspect_lists:
  "nonCompliant (fold (inspect dg mA now) fs st) =
     nonCompliant st @ concat (map (nonCompliantOf dg mA now) fs)"
  "failedImages (fold (inspect dg mA now) fs st) =
     failedImages st @ concat (map (failedOf dg mA now) fs)"
  by (induction fs arbitrary: st) (simp_all add: inspect_lists)

lemma in_nonCompliantOf:
  "img \<in> set (nonCompliantOf dg mA now f) \<longleftrightarrow>
     dg (fst f) = Some img \<and> (\<exists>c. snd f = Inr c \<and> mA <s Since now c)"
  by (auto simp: inspect_def nonCompliantOf_def split: option.splits sum.splits)

lemma in_failedOf:
  "img \<in> set (failedOf dg mA now f) \<longleftrightarrow> dg (fst f) = Some img \<and> (\<exists>e. snd f = Inl e)"
  by (auto simp: inspect_def failedOf_def split: option.splits sum.splits)

lemma scan_ok_lists:
  assumes "rootReadable root"
  shows "nonCompliant (scan mA now root imgs) =
           concat (map (nonCompliantOf (buildDigests imgs) mA now) (rootFiles root))"
    and "failedImages (scan mA now root imgs) =
           concat (map (failedOf (buildDigests imgs) mA now) (rootFiles root))"
  using assms by (simp_all add: scan_ok fold_inspect_lists)

lemma in_scan_nonCompliant:
  assumes "rootReadable root"
  shows "img \<in> set (nonCompliant (scan mA now root imgs)) \<longleftrightarrow>
    (\<exists>n c. (n, Inr c) \<in> set (rootFiles root) \<and> buildDigests imgs n = Some img \<and>
       mA <s Since now c)"
  by (force simp: scan_ok_lists [OF assms] in_nonCompliantOf)

lemma in_scan_failed:
  assumes "rootReadable root"
  shows "img \<in> set (failedImages (scan mA now root imgs)) \<longleftrightarrow>
    (\<exists>n e. (n, Inl e) \<in> set (rootFiles root) \<and> buildDigests imgs n = Some img)"
  by (force simp: scan_ok_lists [OF assms] in_failedOf)

section \<open>The digest index\<close>

lemma fold_digests:
  "fold (\<lambda>dgst m'. m'(TrimPrefix dgst p \<mapsto> img)) ds m k =
     (if k \<in> set (map (\<lambda>dgst. TrimPrefix dgst p) ds) then Some img else m k)"
  by (induction ds arbitrary: m) auto

lemma find_app:
  "find P (xs @ ys) = (case find P xs of None \<Rightarrow> find P ys | Some x \<Rightarrow> Some x)"
  by (induction xs) auto

lemma find_SomeD: "find P xs = Some x \<Longrightarrow> x \<in> set xs \<and> P x"
  by (induction xs) (auto split: if_splits)

lemma fold_images:
  "fold (\<lambda>img m. fold (\<lambda>dgst m'. m'(TrimPrefix dgst ''sha256:'' \<mapsto> img)) (Digests img) m)
     imgs m0 k =
     (case find (\<lambda>img. k \<in> set (bareDigests img)) (rev imgs) of
        Some img \<Rightarrow> Some img
      | None \<Rightarrow> m0 k)"
  by (induction imgs arbitrary: m0)
    (auto simp: fold_digests bareDigests_def find_app split: option.splits)

lemma buildDigests_lastOwner: "buildDigests imgs k = lastOwner imgs k"
  by (simp add: buildDigests_def lastOwner_def fold_images split: option.splits)

lemma buildDigests_Some:
  "buildDigests imgs k = Some img \<Longrightarrow> img \<in> set imgs \<and> k \<in> set (bareDigests img)"
  by (auto simp: buildDigests_lastOwner lastOwner_def dest: find_SomeD)

section \<open>Properties of the scanner\<close>

text \<open>
  C2. If the traversal fails, that is, if \<open>fs.WalkDir\<close> returns an error, \<open>scan\<close> returns
  the whole input list, in input order, as \<open>failed\<close> and the empty list as
  \<open>nonCompliant\<close>.
\<close>

theorem scan_walk_error_all_failed:
  assumes "fst (WalkDir root (scanWalkFn (buildDigests allImages) maxAge now)
             \<lparr>nonCompliant = [], failedImages = [], logged = []\<rparr>) \<noteq> None"
  shows "failedImages (scan maxAge now root allImages) = allImages \<and>
         nonCompliant (scan maxAge now root allImages) = []"
  using assms by (auto simp: scan_def split: prod.splits option.splits)

text \<open>The spec's example of a root directory that does not exist.\<close>

theorem scan_walk_error_all_failed_witness:
  "failedImages (scan defaultMaxAge exNow (Inl ''no such file or directory'') [imgA, imgB]) =
     [imgA, imgB] \<and>
   nonCompliant (scan defaultMaxAge exNow (Inl ''no such file or directory'') [imgA, imgB]) = []"
  using scan_walk_error_all_failed
    [of "Inl ''no such file or directory''" "[imgA, imgB]" defaultMaxAge exNow]
  by (simp add: WalkDir_def)

text \<open>
  C9. If the walk function receives an error for any entry, which happens exactly when the
  root or some directory of the tree cannot be read, the scan ends there and what the
  walk had collected is dropped: \<open>nonCompliant\<close> is empty and \<open>failed\<close> is the whole
  input, also for files classified before the error.
\<close>

theorem entry_error_discards_results:
  assumes "\<not> rootReadable root"
  shows "nonCompliant (scan maxAge now root allImages) = [] \<and>
         failedImages (scan maxAge now root allImages) = allImages"
  using scan_fail [OF assms] by simp

text \<open>
  In \<open>exStoreBroken\<close> the walk has appended \<open>imgA\<close> to \<open>nonCompliant\<close> when it meets the
  unreadable directory; \<open>scan\<close> returns the all-failed result all the same.
\<close>

theorem entry_error_discards_results_witness:
  "nonCompliant (snd (WalkDir (Inr exStoreBroken)
        (scanWalkFn (buildDigests [imgA, imgB]) defaultMaxAge exNow)
        \<lparr>nonCompliant = [], failedImages = [], logged = []\<rparr>)) = [imgA] \<and>
   nonCompliant (scan defaultMaxAge exNow (Inr exStoreBroken) [imgA, imgB]) = [] \<and>
   failedImages (scan defaultMaxAge exNow (Inr exStoreBroken) [imgA, imgB]) = [imgA, imgB]"
proof -
  have "\<not> rootReadable (Inr exStoreBroken)"
    by (simp add: rootReadable_def exStoreBroken_def)
  from entry_error_discards_results [OF this, of defaultMaxAge exNow "[imgA, imgB]"]
  show ?thesis
    by (simp add: ex_defs run_defs)
qed

text \<open>
  C6. When the traversal succeeds, an image with no digest, or none of whose bare digests
  is the base name of a file in the tree, is in neither list that \<open>scan\<close> returns.
\<close>

theorem unmatched_image_untouched:
  assumes "rootReadable root"
      and "Digests img = [] \<or> (\<forall>f \<in> set (rootFiles root). fst f \<notin> set (bareDigests img))"
  shows "img \<notin> set (nonCompliant (scan maxAge now root allImages)) \<and>
         img \<notin> set (failedImages (scan maxAge now root allImages))"
proof -
  have "fst f \<notin> set (bareDigests img)" if "f \<in> set (rootFiles root)" for f
    using assms(2) that by (auto simp: bareDigests_def)
  then show ?thesis
    by (auto simp: in_scan_nonCompliant [OF assms(1)] in_scan_failed [OF assms(1)]
        dest!: buildDigests_Some)
qed

text \<open>
  The spec's store with an image that has no digest, and a store that holds only \<open>d1\<close>
  scanned for \<open>imgB\<close>, whose digest is \<open>d2\<close>.
\<close>

theorem unmatched_image_untouched_witness:
  "imgNone \<notin> set (nonCompliant (scan defaultMaxAge exNow (Inr exStore) [imgA, imgNone, imgB])) \<and>
   imgNone \<notin> set (failedImages (scan defaultMaxAge exNow (Inr exStore) [imgA, imgNone, imgB])) \<and>
   imgB \<notin> set (nonCompliant
     (scan defaultMaxAge exNow (Inr (Dir ''.'' [File ''d1'' (Inr 0)] None)) [imgA, imgB])) \<and>
   imgB \<notin> set (failedImages
     (scan defaultMaxAge exNow (Inr (Dir ''.'' [File ''d1'' (Inr 0)] None)) [imgA, imgB])) \<and>
   nonCompliant (scan defaultMaxAge exNow (Inr (Dir ''.'' [File ''d1'' (Inr 0)] None)) [imgA, imgB]) =
     [imgA]"
proof -
  have "rootReadable (Inr exStore)"
    by (simp add: ex_defs run_defs)
  moreover have "Digests imgNone = [] \<or>
      (\<forall>f \<in> set (rootFiles (Inr exStore)). fst f \<notin> set (bareDigests imgNone))"
    by (simp add: ex_defs)
  ultimately have 1:
    "imgNone \<notin> set (nonCompliant (scan defaultMaxAge exNow (Inr exStore) [imgA, imgNone, imgB])) \<and>
     imgNone \<notin> set (failedImages (scan defaultMaxAge exNow (Inr exStore) [imgA, imgNone, imgB]))"
    by (rule unmatched_image_untouched)
  let ?root = "Inr (Dir ''.'' [File ''d1'' (Inr 0)] None)"
  have "rootReadable ?root"
    by (simp add: run_defs)
  moreover have "Digests imgB = [] \<or>
      (\<forall>f \<in> set (rootFiles ?root). fst f \<notin> set (bareDigests imgB))"
    by (simp add: ex_defs run_defs)
  ultimately have 2:
    "imgB \<notin> set (nonCompliant (scan defaultMaxAge exNow ?root [imgA, imgB])) \<and>
     imgB \<notin> set (failedImages (scan defaultMaxAge exNow ?root [imgA, imgB]))"
    by (rule unmatched_image_untouched)
  have 3: "nonCompliant (scan defaultMaxAge exNow ?root [imgA, imgB]) = [imgA]"
    by (simp add: ex_defs run_defs)
  from 1 2 3 show ?thesis by simp
qed

text \<open>
  C7. The index maps a bare digest (the digest with one leading \<open>sha256:\<close> removed) to the
  last image of the input that has it. So when \<open>img\<close> has the digest and no image after
  it in the input has, the index holds \<open>img\<close> for it, whatever comes before, and the
  walk function appends \<open>img\<close> for a file of that name.
\<close>

theorem digests_last_write_wins:
  "buildDigests allImages key = lastOwner allImages key \<and>
   (key \<in> set (bareDigests img) \<and> (\<forall>later \<in> set after. key \<notin> set (bareDigests later)) \<longrightarrow>
      buildDigests (before @ img # after) key = Some img \<and>
      scanWalkFn (buildDigests (before @ img # after)) maxAge now path
          (Some (File key (Inl e))) None st =
        (None, st\<lparr>failedImages := failedImages st @ [img]\<rparr>) \<and>
      scanWalkFn (buildDigests (before @ img # after)) maxAge now path
          (Some (File key (Inr created))) None st =
        (None, if maxAge <s Since now created
               then st\<lparr>nonCompliant := nonCompliant st @ [img]\<rparr> else st))"
proof -
  have "buildDigests (before @ img # after) key = Some img"
    if "key \<in> set (bareDigests img)" "\<forall>later \<in> set after. key \<notin> set (bareDigests later)"
  proof -
    from that(2) have "find (\<lambda>img. key \<in> set (bareDigests img)) (rev after) = None"
      by (simp add: find_None_iff)
    with that(1) show ?thesis
      by (simp add: buildDigests_lastOwner lastOwner_def find_app)
  qed
  then show ?thesis by (simp add: buildDigests_lastOwner)
qed

text \<open>
  \<open>imgA\<close> and \<open>imgA2\<close> share the bare digest \<open>d1\<close>: whichever comes last in the input
  owns it, and the ten-day-old file \<open>d1\<close> is reported for that image only.
\<close>

theorem digests_last_write_wins_witness:
  "buildDigests [imgA, imgB, imgA2] ''d1'' = Some imgA2 \<and>
   buildDigests [imgA2, imgB, imgA] ''d1'' = Some imgA \<and>
   nonCompliant (scan defaultMaxAge exNow (Inr exStore) [imgA, imgB, imgA2]) = [imgA2]"
proof -
  have 1: "''d1'' \<in> set (bareDigests imgA2) \<and>
      (\<forall>later \<in> set []. ''d1'' \<notin> set (bareDigests later))"
    by (simp add: ex_defs run_defs)
  have 2: "''d1'' \<in> set (bareDigests imgA) \<and>
      (\<forall>later \<in> set []. ''d1'' \<notin> set (bareDigests later))"
    by (simp add: ex_defs run_defs)
  have 3: "nonCompliant (scan defaultMaxAge exNow (Inr exStore) [imgA, imgB, imgA2]) = [imgA2]"
    by (simp add: ex_defs run_defs)
  from digests_last_write_wins [of "[imgA, imgB, imgA2]" "''d1''" imgA2 "[]" "[imgA, imgB]"] 1
    digests_last_write_wins [of "[imgA, imgB, imgA2]" "''d1''" imgA "[]" "[imgA2, imgB]"] 2 3
  show ?thesis by simp
qed

text \<open>
  C5. When the metadata of a file matched to an image cannot be read, the walk function
  appends the image to \<open>failed\<close>, leaves \<open>nonCompliant\<close> as it is and returns no error,
  so the walk goes on; the image is in the \<open>failed\<close> list that \<open>scan\<close> returns; the file
  adds nothing to \<open>nonCompliant\<close>; and when the traversal succeeds each list is made of
  the verdicts on the files one by one, each verdict depending on its own file only.
\<close>

theorem metadata_failure_is_local:
  assumes "(n, Inl e) \<in> set (rootFiles root)"
      and "buildDigests allImages n = Some img"
  shows "scanWalkFn (buildDigests allImages) maxAge now path (Some (File n (Inl e))) None st =
           (None, st\<lparr>failedImages := failedImages st @ [img]\<rparr>) \<and>
         img \<in> set (failedImages (scan maxAge now root allImages)) \<and>
         nonCompliantOf (buildDigests allImages) maxAge now (n, Inl e) = [] \<and>
         failedOf (buildDigests allImages) maxAge now (n, Inl e) = [img] \<and>
         (rootReadable root \<longrightarrow>
            nonCompliant (scan maxAge now root allImages) =
              concat (map (nonCompliantOf (buildDigests allImages) maxAge now) (rootFiles root)) \<and>
            failedImages (scan maxAge now root allImages) =
              concat (map (failedOf (buildDigests allImages) maxAge now) (rootFiles root)))"
proof -
  have "img \<in> set (failedImages (scan maxAge now root allImages))"
  proof (cases "rootReadable root")
    case True
    with assms show ?thesis by (auto simp: in_scan_failed)
  next
    case False
    with buildDigests_Some [OF assms(2)] show ?thesis by (simp add: scan_fail)
  qed
  with assms(2) show ?thesis
    by (simp add: scan_ok_lists nonCompliantOf_def failedOf_def inspect_def)
qed

text \<open>
  In \<open>exStoreGone\<close> the metadata of \<open>d1\<close> cannot be read: \<open>imgA\<close> is failed, and the walk
  goes on to \<open>d2\<close>, which is ten days old, and reports \<open>imgB\<close>.
\<close>

theorem metadata_failure_is_local_witness:
  "scanWalkFn (buildDigests [imgA, imgB]) defaultMaxAge exNow ''d1''
      (Some (File ''d1'' (Inl ''no such file or directory''))) None
      \<lparr>nonCompliant = [], failedImages = [], logged = []\<rparr> =
     (None, \<lparr>nonCompliant = [], failedImages = [imgA], logged = []\<rparr>) \<and>
   failedImages (scan defaultMaxAge exNow (Inr exStoreGone) [imgA, imgB]) = [imgA] \<and>
   nonCompliant (scan defaultMaxAge exNow (Inr exStoreGone) [imgA, imgB]) = [imgB]"
proof -
  have 1: "(''d1'', Inl ''no such file or directory'') \<in> set (rootFiles (Inr exStoreGone))"
    by (simp add: ex_defs run_defs)
  have 2: "buildDigests [imgA, imgB] ''d1'' = Some imgA"
    by (simp add: ex_defs run_defs)
  have 3: "rootReadable (Inr exStoreGone)"
    by (simp add: ex_defs run_defs)
  have 4: "map (nonCompliantOf (buildDigests [imgA, imgB]) defaultMaxAge exNow)
      (rootFiles (Inr exStoreGone)) = [[], [imgB]]"
    by (simp add: ex_defs run_defs)
  have 5: "map (failedOf (buildDigests [imgA, imgB]) defaultMaxAge exNow)
      (rootFiles (Inr exStoreGone)) = [[imgA], []]"
    by (simp add: ex_defs run_defs)
  from metadata_failure_is_local [OF 1 2, of defaultMaxAge exNow "''d1''"
      "\<lparr>nonCompliant = [], failedImages = [], logged = []\<rparr>"] 3 4 5
  show ?thesis by simp
qed




text \<open>
  C3 as the spec states it does not hold. The file \<open>d1\<close> is ten days old and \<open>imgA\<close> has
  its digest; yet \<open>imgA\<close> is not reported when \<open>imgA2\<close>, later in the input, has the
  same bare digest, nor when the walk fails at a directory after the file.
\<close>

theorem old_file_not_reported_counterexample:
  "(''d1'', Inr 0) \<in> set (rootFiles (Inr exStore)) \<and>
   ''d1'' \<in> set (bareDigests imgA) \<and>
   defaultMaxAge <s Since exNow 0 \<and>
   imgA \<notin> set (nonCompliant (scan defaultMaxAge exNow (Inr exStore) [imgA, imgA2])) \<and>
   (''d1'', Inr 0) \<in> set (rootFiles (Inr exStoreBroken)) \<and>
   imgA \<notin> set (nonCompliant (scan defaultMaxAge exNow (Inr exStoreBroken) [imgA, imgB]))"
  by (simp add: ex_defs run_defs)

text \<open>
  C3, amended. When the traversal succeeds, an image that is the last of the input to have
  a digest matching a file of the tree whose age, \<open>now\<close> minus its creation time, exceeds
  \<open>maxAge\<close> is in the \<open>nonCompliant\<close> list that \<open>scan\<close> returns.
\<close>

theorem old_file_reported:
  assumes "rootReadable root"
      and "(n, Inr created) \<in> set (rootFiles root)"
      and "lastOwner allImages n = Some img"
      and "maxAge <s Since now created"
  shows "img \<in> set (nonCompliant (scan maxAge now root allImages))"
  using assms(2-) unfolding in_scan_nonCompliant [OF assms(1)] buildDigests_lastOwner by blast

text \<open>The first example of the spec: \<open>nonCompliant = [a]\<close>, \<open>failed = []\<close>.\<close>

theorem old_file_reported_witness:
  "imgA \<in> set (nonCompliant (scan defaultMaxAge exNow (Inr exStore) [imgA, imgB])) \<and>
   nonCompliant (scan defaultMaxAge exNow (Inr exStore) [imgA, imgB]) = [imgA] \<and>
   failedImages (scan defaultMaxAge exNow (Inr exStore) [imgA, imgB]) = []"
proof -
  have "rootReadable (Inr exStore)" "(''d1'', Inr 0) \<in> set (rootFiles (Inr exStore))"
    "lastOwner [imgA, imgB] ''d1'' = Some imgA" "defaultMaxAge <s Since exNow 0"
    by (simp_all add: ex_defs run_defs)
  from old_file_reported [OF this] show ?thesis
    by (simp add: ex_defs run_defs)
qed

text \<open>
  C4 as the spec states it does not hold. The only file matching \<open>imgB\<close> is one hour old
  and its metadata can be read; the walk fails at a directory met later, and \<open>imgB\<close> is
  in \<open>failed\<close> with every other image.
\<close>

theorem young_file_counterexample:
  "filter (\<lambda>f. fst f \<in> set (bareDigests imgB)) (rootFiles (Inr exStoreBroken)) =
     [(''d2'', Inr 860400000000000)] \<and>
   Since exNow 860400000000000 \<le>s defaultMaxAge \<and>
   imgB \<in> set (failedImages (scan defaultMaxAge exNow (Inr exStoreBroken) [imgA, imgB]))"
  by (simp add: ex_defs run_defs)

text \<open>
  C4, amended. When the traversal succeeds, an image all of whose matching files have
  metadata that can be read and an age of at most \<open>maxAge\<close> is in neither list that
  \<open>scan\<close> returns. The comparison is strict: an age equal to \<open>maxAge\<close> is not reported.
\<close>

theorem young_file_untouched:
  assumes "rootReadable root"
      and "\<forall>f \<in> set (rootFiles root). fst f \<in> set (bareDigests img) \<longrightarrow>
             (\<exists>created. snd f = Inr created \<and> Since now created \<le>s maxAge)"
  shows "img \<notin> set (nonCompliant (scan maxAge now root allImages)) \<and>
         img \<notin> set (failedImages (scan maxAge now root allImages))"
proof -
  have "\<not> maxAge <s Since now created"
    if "(n, Inr created) \<in> set (rootFiles root)" "buildDigests allImages n = Some img"
    for n created
    using assms(2) that buildDigests_Some [OF that(2)] by (fastforce simp: signed.not_less)
  moreover have False
    if "(n, Inl e) \<in> set (rootFiles root)" "buildDigests allImages n = Some img" for n e
    using assms(2) that buildDigests_Some [OF that(2)] by fastforce
  ultimately show ?thesis
    unfolding in_scan_nonCompliant [OF assms(1)] in_scan_failed [OF assms(1)] by blast
qed

text \<open>In \<open>exStoreEdge\<close> the file \<open>d2\<close> is exactly seven days old.\<close>

theorem young_file_untouched_witness:
  "Since exNow 259200000000000 = defaultMaxAge \<and>
   nonCompliant (scan defaultMaxAge exNow (Inr exStoreEdge) [imgA, imgB]) = [imgA] \<and>
   imgB \<notin> set (nonCompliant (scan defaultMaxAge exNow (Inr exStoreEdge) [imgA, imgB])) \<and>
   imgB \<notin> set (failedImages (scan defaultMaxAge exNow (Inr exStoreEdge) [imgA, imgB]))"
proof -
  have "rootReadable (Inr exStoreEdge)"
    by (simp add: ex_defs run_defs)
  moreover have "\<forall>f \<in> set (rootFiles (Inr exStoreEdge)). fst f \<in> set (bareDigests imgB) \<longrightarrow>
      (\<exists>created. snd f = Inr created \<and> Since exNow created \<le>s defaultMaxAge)"
    by (simp add: ex_defs run_defs)
  ultimately have
    "imgB \<notin> set (nonCompliant (scan defaultMaxAge exNow (Inr exStoreEdge) [imgA, imgB])) \<and>
     imgB \<notin> set (failedImages (scan defaultMaxAge exNow (Inr exStoreEdge) [imgA, imgB]))"
    by (rule young_file_untouched)
  moreover have "Since exNow 259200000000000 = defaultMaxAge"
    by (simp add: ex_defs run_defs)
  moreover have "nonCompliant (scan defaultMaxAge exNow (Inr exStoreEdge) [imgA, imgB]) = [imgA]"
    by (simp add: ex_defs run_defs)
  ultimately show ?thesis by simp
qed

section \<open>The two variants of the scanner\<close>

lemma simulatesD:
  "simulates R f g \<Longrightarrow> R s t \<Longrightarrow> f p d e s = (x, s') \<Longrightarrow> g p d e t = (y, t') \<Longrightarrow>
   y = x \<and> R s' t'"
  unfolding simulates_def by (metis fst_conv snd_conv)

text \<open>Walk functions that go in step give walks that go in step.\<close>

lemma walk_sim:
  "simulates R f g \<Longrightarrow> R s t \<Longrightarrow>
     fst (walkDir f p n s) = fst (walkDir g p n t) \<and>
     R (snd (walkDir f p n s)) (snd (walkDir g p n t))"
  "simulates R f g \<Longrightarrow> R s t \<Longrightarrow>
     fst (walkEntries f p ns s) = fst (walkEntries g p ns t) \<and>
     R (snd (walkEntries f p ns s)) (snd (walkEntries g p ns t))"
proof (induction f p n s and f p ns s arbitrary: t and t rule: walkDir_walkEntries.induct)
  case (1 fn name n i s)
  then show ?case by (simp add: simulates_def)
next
  case (2 fn name n ds rerr s)
  obtain e1 s1 where f1: "fn name (Some (Dir n ds rerr)) None s = (e1, s1)" by force
  obtain e2 t1 where g1: "g name (Some (Dir n ds rerr)) None t = (e2, t1)" by force
  from simulatesD [OF "2.prems" f1 g1] have e: "e2 = e1" and r1: "R s1 t1" by simp_all
  show ?case
  proof (cases e1)
    case (Some err)
    with f1 g1 e r1 show ?thesis by simp
  next
    case None
    note e1 = None
    show ?thesis
    proof (cases rerr)
      case None
      with "2.IH"(1) [OF f1 [symmetric] e1 None "2.prems"(1) r1] f1 g1 e e1
      show ?thesis by simp
    next
      case (Some er)
      obtain e3 s2
        where f2: "fn name (Some (Dir n ds rerr)) (Some (PathError er)) s1 = (e3, s2)"
        by force
      obtain e4 t2
        where g2: "g name (Some (Dir n ds rerr)) (Some (PathError er)) t1 = (e4, t2)"
        by force
      from simulatesD [OF "2.prems"(1) r1 f2 g2] have e': "e4 = e3" and r2: "R s2 t2"
        by simp_all
      show ?thesis
      proof (cases e3)
        case None
        with "2.IH"(2) [OF f1 [symmetric] e1 Some _ None "2.prems"(1) r2]
          f1 g1 e e1 f2 g2 e' Some
        show ?thesis by simp
      next
        case (Some err)
        with f1 g1 e e1 f2 g2 e' r2 \<open>rerr = Some er\<close> show ?thesis by simp
      qed
    qed
  qed
next
  case (3 fn name s)
  then show ?case by simp
next
  case (4 fn name d1 ds s)
  obtain e1 s1 where f1: "walkDir fn (joinPath name (Name d1)) d1 s = (e1, s1)" by force
  obtain e2 t1 where g1: "walkDir g (joinPath name (Name d1)) d1 t = (e2, t1)" by force
  from "4.IH"(1) [OF "4.prems"] f1 g1 have e: "e2 = e1" and r1: "R s1 t1" by simp_all
  show ?case
  proof (cases e1)
    case None
    with "4.IH"(2) [OF f1 [symmetric] None "4.prems"(1) r1] f1 g1 e show ?thesis by simp
  next
    case (Some err)
    with f1 g1 e r1 show ?thesis by simp
  qed
qed

lemma WalkDir_sim:
  assumes "simulates R f g" "R s t"
  shows "fst (WalkDir root f s) = fst (WalkDir root g t) \<and>
         R (snd (WalkDir root f s)) (snd (WalkDir root g t))"
proof (cases root)
  case (Inl e)
  obtain x s' where f1: "f ''.'' None (Some (PathError e)) s = (x, s')" by force
  obtain y t' where g1: "g ''.'' None (Some (PathError e)) t = (y, t')" by force
  from simulatesD [OF assms f1 g1] f1 g1 Inl show ?thesis
    by (simp add: WalkDir_def split: option.splits)
next
  case (Inr d)
  obtain x s' where f1: "walkDir f ''.'' d s = (x, s')" by force
  obtain y t' where g1: "walkDir g ''.'' d t = (y, t')" by force
  from walk_sim(1) [OF assms, of "''.''" d] f1 g1 Inr show ?thesis
    by (simp add: WalkDir_def split: option.splits)
qed

text \<open>The walk function that logs and the one that does not go in step on the two lists.\<close>

lemma scanWalkFn_sim: "simulates sameLists (scanWalkFn2 dg mA now) (scanWalkFn dg mA now)"
  unfolding simulates_def
proof (intro allI impI)
  fix p d e s t
  assume "sameLists s t"
  then show "fst (scanWalkFn2 dg mA now p d e s) = fst (scanWalkFn dg mA now p d e t) \<and>
    sameLists (snd (scanWalkFn2 dg mA now p d e s)) (snd (scanWalkFn dg mA now p d e t))"
    by (cases "(dg, mA, now, p, d, e, s)" rule: scanWalkFn2.cases)
      (auto simp: sameLists_def Let_def split: option.splits sum.splits)
qed

text \<open>
  C10. The \<open>scan\<close> functions of the two variants return the same pair of lists for every
  input list, store, clock reading and \<open>maxAge\<close>; they differ in what they log.
\<close>

theorem scan_variants_agree:
  "nonCompliant (scan2 maxAge now root allImages) = nonCompliant (scan maxAge now root allImages) \<and>
   failedImages (scan2 maxAge now root allImages) = failedImages (scan maxAge now root allImages)"
proof -
  let ?s0 = "\<lparr>nonCompliant = [], failedImages = [], logged = []\<rparr>"
  let ?dg = "buildDigests allImages"
  obtain x s where f1: "WalkDir root (scanWalkFn2 ?dg maxAge now) ?s0 = (x, s)" by force
  obtain y t where g1: "WalkDir root (scanWalkFn ?dg maxAge now) ?s0 = (y, t)" by force
  have "sameLists ?s0 ?s0" by (simp add: sameLists_def)
  from WalkDir_sim [OF scanWalkFn_sim this, of root ?dg maxAge now] f1 g1
  have "y = x" "sameLists s t" by simp_all
  with f1 g1 show ?thesis
    by (cases x) (simp_all add: scan_def scan2_def sameLists_def)
qed

text \<open>On the spec's example the first variant logs nothing and the second three lines.\<close>

lemma scan_variants_log:
  "logged (scan defaultMaxAge exNow (Inr exStore) [imgA, imgB]) = [] \<and>
   length (logged (scan2 defaultMaxAge exNow (Inr exStore) [imgA, imgB])) = 3"
  by (simp add: ex_defs run_defs scan2_def)

section \<open>The threshold that main sets\<close>

lemmas parse_defs = ParseDuration_def parseTerm_def unitMap_def isDigit_def Let_def

text \<open>
  C8. The string \<open>168h\<close> parses to 168 hours, which is also the initial value of
  \<open>maxAge\<close>. The fallback that the spec describes is not what the first variant does:
  for the string \<open>abc\<close> the parser returns the duration 0 beside its error and \<open>main\<close>
  stores it, and when the scanner's block has no \<open>maxAge\<close> the default \<open>7d\<close> of
  \<open>loadConfig\<close> has a unit the parser does not know, with the same end. With the
  threshold 0 the one-hour-old file of the spec's example is reported too. The second
  variant exits on \<open>abc\<close> and reads its default \<open>168h\<close> as 168 hours.
\<close>

theorem parse_failure_zeroes_maxAge:
  "ParseDuration fracNanos ''168h'' = (168 * Hour, None) \<and>
   mainMaxAge fracNanos (exEnv (Some ''168h'')) [] = 168 * Hour \<and>
   defaultMaxAge = 168 * Hour \<and>
   ParseDuration fracNanos ''abc'' = (0, Some (InvalidDuration ''abc'')) \<and>
   mainMaxAge fracNanos (exEnv (Some ''abc'')) [] = 0 \<and>
   ParseDuration fracNanos ''7d'' = (0, Some (UnknownUnit ''d'' ''7d'')) \<and>
   loadConfig (exEnv None) ''/config/controller_manager_config.yaml'' =
     (\<lparr>MaxAge = ''7d''\<rparr>, None) \<and>
   mainMaxAge fracNanos (exEnv None) [] = 0 \<and>
   nonCompliant (scan 0 exNow (Inr exStore) [imgA, imgB]) = [imgA, imgB] \<and>
   nonCompliant (scan defaultMaxAge exNow (Inr exStore) [imgA, imgB]) = [imgA] \<and>
   mainMaxAge2 fracNanos (exEnv (Some ''abc'')) [] = Exited 1 \<and>
   mainMaxAge2 fracNanos (exEnv None) [] = Returned (168 * Hour)"
proof -
  have p1: "ParseDuration fracNanos ''168h'' = (168 * Hour, None)"
    by (simp add: parse_defs Hour_def)
  have p2: "ParseDuration fracNanos ''abc'' = (0, Some (InvalidDuration ''abc''))"
    by (simp add: parse_defs)
  have p3: "ParseDuration fracNanos ''7d'' = (0, Some (UnknownUnit ''d'' ''7d''))"
    by (simp add: parse_defs)
  have l1: "loadConfig (exEnv v) f =
      (case v of None \<Rightarrow> \<lparr>MaxAge = ''7d''\<rparr> | Some m \<Rightarrow> \<lparr>MaxAge = m\<rparr>, None)" for v f
    by (simp add: loadConfig_def exEnv_def split: option.splits)
  have l2: "loadConfig2 (exEnv v) f =
      Returned (case v of None \<Rightarrow> \<lparr>MaxAge = ''168h''\<rparr> | Some m \<Rightarrow> \<lparr>MaxAge = m\<rparr>, None)"
    for v f
    by (simp add: loadConfig2_def exEnv_def split: option.splits)
  have s1: "nonCompliant (scan 0 exNow (Inr exStore) [imgA, imgB]) = [imgA, imgB]"
    by (simp add: ex_defs run_defs word_sless_alt)
  have s2: "nonCompliant (scan defaultMaxAge exNow (Inr exStore) [imgA, imgB]) = [imgA]"
    by (simp add: ex_defs run_defs)
  have d: "defaultMaxAge = 168 * Hour"
    by (simp add: defaultMaxAge_def)
  from s2 show ?thesis
    by (simp add: p1 p2 p3 l1 l2 s1 d mainMaxAge_def mainMaxAge2_def)
qed

end
